theory Spec2Isabelle
  imports Main
begin

section \<open>HTTP message signatures: the public layer of package httpsig (httpsig.go)\<close>

text \<open>
  The file httpsig.go holds the constructors \<open>NewSigner\<close> and \<open>NewVerifier\<close>, the
  request-level operations \<open>Signer.Sign\<close> and \<open>Verifier.Verify\<close>, the client transport
  \<open>NewSignTransport\<close>, the server middleware \<open>NewVerifyMiddleware\<close> and the option
  functions. Go strings and byte slices are both sequences of bytes and are modelled as
  \<open>char list\<close> (an Isabelle \<open>char\<close> is one byte). A Go map is a partial function. Pointer
  mutation is explicit state passing: an operation on \<open>*http.Request\<close> returns the
  request as it stands when the operation ends.
\<close>

type_synonym bytes = "char list"

text \<open>\<open>http.Header\<close> is \<open>map[string][]string\<close>.\<close>

type_synonym header = "string \<rightharpoonup> string list"

text \<open>A Go \<open>error\<close> value, identified by its message.\<close>

datatype error = Error string

text \<open>A Go call either returns or panics; a panic carries its message.\<close>

datatype 'a outcome = Returns 'a | Panics string

subsection \<open>Header access\<close>

text \<open>
  \<open>Header.Set\<close> and \<open>Header.Get\<close> canonicalise the key first. The only keys this file
  passes are the literals \<open>Content-Digest\<close> and \<open>Content-Type\<close>, which are in canonical
  form already, so the canonicalisation is the identity on them and is left out.
  \<open>Set\<close> replaces the values of the key by the single new value; \<open>Get\<close> gives the first
  value of the key, and the empty string when the key has no value.
\<close>

definition Header_Set :: "header \<Rightarrow> string \<Rightarrow> string \<Rightarrow> header" where
  "Header_Set h key v = h(key \<mapsto> [v])"

definition Header_Get :: "header \<Rightarrow> string \<Rightarrow> string" where
  "Header_Get h key = (case h key of None \<Rightarrow> [] | Some [] \<Rightarrow> [] | Some (v # vs) \<Rightarrow> v)"

subsection \<open>Request bodies\<close>

text \<open>
  A request body is an \<open>io.ReadCloser\<close>. A \<open>stream\<close> is a body supplied by the caller or
  the server: the bytes its reads still deliver, how its reads end (\<open>None\<close> is a clean
  end of file, \<open>Some e\<close> the error the read stops with), and whether \<open>Close\<close> was called.
  The model records that \<open>Close\<close> was called; what a stream delivers after that is the
  stream's own matter and is never asked for here. \<open>NopCloser bs\<close> is
  \<open>io.NopCloser(bytes.NewReader(bs))\<close>, a reader over a buffer with the bytes \<open>bs\<close>
  unread, whose \<open>Close\<close> does nothing.
\<close>

record stream =
  pending :: bytes
  failure :: "error option"
  closed :: bool

datatype body = Stream stream | NopCloser bytes

text \<open>
  \<open>bytes.Buffer.ReadFrom\<close> on an empty buffer: reads until the end of the body or an error,
  and gives the bytes read (their number is the \<open>n\<close> of the source), the error if any
  (end of file is not an error), and the body as the read leaves it.
\<close>

fun ReadFrom :: "body \<Rightarrow> bytes \<times> error option \<times> body" where
  "ReadFrom (Stream s) = (pending s, failure s, Stream (s\<lparr>pending := []\<rparr>))"
| "ReadFrom (NopCloser bs) = (bs, None, NopCloser [])"

fun Close :: "body \<Rightarrow> body" where
  "Close (Stream s) = Stream (s\<lparr>closed := True\<rparr>)"
| "Close (NopCloser bs) = NopCloser bs"

subsection \<open>Requests and response writers\<close>

text \<open>
  The fields of \<open>http.Request\<close> the package reads. \<open>Header\<close> is \<open>None\<close> for a nil map
  (reading a nil map gives no entry, writing to it panics); \<open>Body\<close> is \<open>None\<close> for a nil
  body.
\<close>

record request =
  Method :: string
  URL :: string
  Host :: string
  Header :: "header option"
  Body :: "body option"

text \<open>
  An \<open>http.ResponseWriter\<close>: the header map that \<open>Header()\<close> returns, the status code
  and the copy of the header map that went out when the header was written (\<open>None\<close>
  until then), and the body bytes written.
\<close>

record responseWriter =
  handlerHeader :: header
  wroteHeader :: "(nat \<times> header) option"
  written :: bytes

definition WriteHeader :: "responseWriter \<Rightarrow> nat \<Rightarrow> responseWriter" where
  "WriteHeader rw code =
     (case wroteHeader rw of
        None \<Rightarrow> rw\<lparr>wroteHeader := Some (code, handlerHeader rw)\<rparr>
      | Some sent \<Rightarrow> rw)"

definition Write :: "responseWriter \<Rightarrow> bytes \<Rightarrow> responseWriter" where
  "Write rw bs =
     (let rw1 = (case wroteHeader rw of None \<Rightarrow> WriteHeader rw 200 | Some sent \<Rightarrow> rw)
      in rw1\<lparr>written := written rw1 @ bs\<rparr>)"

definition StatusBadRequest :: nat where
  "StatusBadRequest = 400"

subsection \<open>Keys and the signer and verifier structures\<close>

datatype Algorithm =
    AlgorithmRsaPkcs1v15Sha256
  | AlgorithmRsaPssSha512
  | AlgorithmEcdsaP256Sha256
  | AlgorithmEcdsaP384Sha384
  | AlgorithmEd25519
  | AlgorithmHmacSha256

fun Algorithm_string :: "Algorithm \<Rightarrow> string" where
  "Algorithm_string AlgorithmRsaPkcs1v15Sha256 = ''rsa-v1_5-sha256''"
| "Algorithm_string AlgorithmRsaPssSha512 = ''rsa-pss-sha512''"
| "Algorithm_string AlgorithmEcdsaP256Sha256 = ''ecdsa-p256-sha256''"
| "Algorithm_string AlgorithmEcdsaP384Sha384 = ''ecdsa-p384-sha384''"
| "Algorithm_string AlgorithmEd25519 = ''ed25519''"
| "Algorithm_string AlgorithmHmacSha256 = ''hmac-sha256''"

text \<open>
  The key structures the option functions store. The RSA and ECDSA key material
  (\<open>*rsa.PrivateKey\<close>, \<open>*ecdsa.PublicKey\<close>, ...) is a type parameter; Ed25519 keys and
  HMAC secrets are byte slices.
\<close>

datatype ('rsa, 'ecdsa) SigningKey =
    RsaPkcs1v15Sha256SigningKey 'rsa
  | RsaPssSha512SigningKey 'rsa
  | EcdsaP256SigningKey 'ecdsa
  | EcdsaP384SigningKey 'ecdsa
  | Ed25519SigningKey bytes
  | HmacSha256SigningKey bytes

datatype ('rsa, 'ecdsa) VerifyingKey =
    RsaPkcs1v15Sha256VerifyingKey 'rsa
  | RsaPssSha512VerifyingKey 'rsa
  | EcdsaP256VerifyingKey 'ecdsa
  | EcdsaP384VerifyingKey 'ecdsa
  | Ed25519VerifyingKey bytes
  | HmacSha256VerifyingKey bytes

text \<open>
  The structures \<open>signer\<close> and \<open>verifier\<close> are declared in another file of the package;
  these are the fields httpsig.go uses. \<open>keys.Store\<close> is a map update.
\<close>

record ('rsa, 'ecdsa) signer =
  headers :: "string list"
  keys :: "string \<rightharpoonup> ('rsa, 'ecdsa) SigningKey"

record ('rsa, 'ecdsa, 'res, 'clock) verifier =
  v_keys :: "string \<rightharpoonup> ('rsa, 'ecdsa) VerifyingKey"
  resolver :: "'res option"
  nowFunc :: "'clock"

subsection \<open>Options\<close>

text \<open>
  An option is an \<open>optImpl\<close>: a function on the signer (field \<open>s\<close>) or on the verifier
  (field \<open>v\<close>) that \<open>configureSign\<close> and \<open>configureVerify\<close> call. \<open>WithHmacSha256\<close> carries
  both; its two faces are \<open>WithHmacSha256_s\<close> and \<open>WithHmacSha256_v\<close>.
\<close>

type_synonym ('rsa, 'ecdsa) signOption = "('rsa, 'ecdsa) signer \<Rightarrow> ('rsa, 'ecdsa) signer"

type_synonym ('rsa, 'ecdsa, 'res, 'clock) verifyOption =
  "('rsa, 'ecdsa, 'res, 'clock) verifier \<Rightarrow> ('rsa, 'ecdsa, 'res, 'clock) verifier"

definition configureSign ::
  "('rsa, 'ecdsa) signOption \<Rightarrow> ('rsa, 'ecdsa) signer \<Rightarrow> ('rsa, 'ecdsa) signer" where
  "configureSign opt s = opt s"

definition configureVerify ::
  "('rsa, 'ecdsa, 'res, 'clock) verifyOption \<Rightarrow> ('rsa, 'ecdsa, 'res, 'clock) verifier
     \<Rightarrow> ('rsa, 'ecdsa, 'res, 'clock) verifier" where
  "configureVerify opt v = opt v"

definition WithHeaders :: "string list \<Rightarrow> ('rsa, 'ecdsa) signOption" where
  "WithHeaders hdr = (\<lambda>s. s\<lparr>headers := hdr\<rparr>)"

definition WithVerifyingKeyResolver :: "'res \<Rightarrow> ('rsa, 'ecdsa, 'res, 'clock) verifyOption" where
  "WithVerifyingKeyResolver res = (\<lambda>v. v\<lparr>resolver := Some res\<rparr>)"

definition WithSignRsaPkcs1v15Sha256 :: "string \<Rightarrow> 'rsa \<Rightarrow> ('rsa, 'ecdsa) signOption" where
  "WithSignRsaPkcs1v15Sha256 keyID pk =
     (\<lambda>s. s\<lparr>keys := (keys s)(keyID \<mapsto> RsaPkcs1v15Sha256SigningKey pk)\<rparr>)"

definition WithVerifyRsaPkcs1v15Sha256 ::
  "string \<Rightarrow> 'rsa \<Rightarrow> ('rsa, 'ecdsa, 'res, 'clock) verifyOption" where
  "WithVerifyRsaPkcs1v15Sha256 keyID pk =
     (\<lambda>v. v\<lparr>v_keys := (v_keys v)(keyID \<mapsto> RsaPkcs1v15Sha256VerifyingKey pk)\<rparr>)"

definition WithSignRsaPssSha512 :: "string \<Rightarrow> 'rsa \<Rightarrow> ('rsa, 'ecdsa) signOption" where
  "WithSignRsaPssSha512 keyID pk =
     (\<lambda>s. s\<lparr>keys := (keys s)(keyID \<mapsto> RsaPssSha512SigningKey pk)\<rparr>)"

definition WithVerifyRsaPssSha512 ::
  "string \<Rightarrow> 'rsa \<Rightarrow> ('rsa, 'ecdsa, 'res, 'clock) verifyOption" where
  "WithVerifyRsaPssSha512 keyID pk =
     (\<lambda>v. v\<lparr>v_keys := (v_keys v)(keyID \<mapsto> RsaPssSha512VerifyingKey pk)\<rparr>)"

definition WithSignEcdsaP256Sha256 :: "string \<Rightarrow> 'ecdsa \<Rightarrow> ('rsa, 'ecdsa) signOption" where
  "WithSignEcdsaP256Sha256 keyID pk =
     (\<lambda>s. s\<lparr>keys := (keys s)(keyID \<mapsto> EcdsaP256SigningKey pk)\<rparr>)"

definition WithVerifyEcdsaP256Sha256 ::
  "string \<Rightarrow> 'ecdsa \<Rightarrow> ('rsa, 'ecdsa, 'res, 'clock) verifyOption" where
  "WithVerifyEcdsaP256Sha256 keyID pk =
     (\<lambda>v. v\<lparr>v_keys := (v_keys v)(keyID \<mapsto> EcdsaP256VerifyingKey pk)\<rparr>)"

definition WithSignEcdsaP384Sha384 :: "string \<Rightarrow> 'ecdsa \<Rightarrow> ('rsa, 'ecdsa) signOption" where
  "WithSignEcdsaP384Sha384 keyID pk =
     (\<lambda>s. s\<lparr>keys := (keys s)(keyID \<mapsto> EcdsaP384SigningKey pk)\<rparr>)"

definition WithVerifyEcdsaP384Sha384 ::
  "string \<Rightarrow> 'ecdsa \<Rightarrow> ('rsa, 'ecdsa, 'res, 'clock) verifyOption" where
  "WithVerifyEcdsaP384Sha384 keyID pk =
     (\<lambda>v. v\<lparr>v_keys := (v_keys v)(keyID \<mapsto> EcdsaP384VerifyingKey pk)\<rparr>)"

definition WithSignEd25519 :: "string \<Rightarrow> bytes \<Rightarrow> ('rsa, 'ecdsa) signOption" where
  "WithSignEd25519 keyID pk =
     (\<lambda>s. s\<lparr>keys := (keys s)(keyID \<mapsto> Ed25519SigningKey pk)\<rparr>)"

definition WithVerifyEd25519 :: "string \<Rightarrow> bytes \<Rightarrow> ('rsa, 'ecdsa, 'res, 'clock) verifyOption" where
  "WithVerifyEd25519 keyID pk =
     (\<lambda>v. v\<lparr>v_keys := (v_keys v)(keyID \<mapsto> Ed25519VerifyingKey pk)\<rparr>)"

definition WithHmacSha256_s :: "string \<Rightarrow> bytes \<Rightarrow> ('rsa, 'ecdsa) signOption" where
  "WithHmacSha256_s keyID secret =
     (\<lambda>s. s\<lparr>keys := (keys s)(keyID \<mapsto> HmacSha256SigningKey secret)\<rparr>)"

definition WithHmacSha256_v :: "string \<Rightarrow> bytes \<Rightarrow> ('rsa, 'ecdsa, 'res, 'clock) verifyOption" where
  "WithHmacSha256_v keyID secret =
     (\<lambda>v. v\<lparr>v_keys := (v_keys v)(keyID \<mapsto> HmacSha256VerifyingKey secret)\<rparr>)"

subsection \<open>NewSigner and NewVerifier\<close>

definition defaultHeaders :: "string list" where
  "defaultHeaders = [''content-type'', ''content-length'']"

fun sliceHas :: "string list \<Rightarrow> string \<Rightarrow> bool" where
  "sliceHas [] needle = False"
| "sliceHas (n # haystack) needle = (if n = needle then True else sliceHas haystack needle)"

text \<open>The option loop of \<open>NewSigner\<close>, starting from the zero value \<open>signer{}\<close>.\<close>

definition configuredSigner :: "('rsa, 'ecdsa) signOption list \<Rightarrow> ('rsa, 'ecdsa) signer" where
  "configuredSigner opts =
     foldl (\<lambda>s opt. configureSign opt s) \<lparr>headers = [], keys = Map.empty\<rparr> opts"

text \<open>One round of the loop over the specialty components: the body of the \<open>for\<close>.\<close>

definition prependMissing :: "string list \<Rightarrow> string \<Rightarrow> string list" where
  "prependMissing hs component = (if \<not> sliceHas hs component then [component] @ hs else hs)"

definition NewSigner :: "('rsa, 'ecdsa) signOption list \<Rightarrow> ('rsa, 'ecdsa) signer" where
  "NewSigner opts =
     (let s = configuredSigner opts;
          s1 = (if length (headers s) = 0 then s\<lparr>headers := defaultHeaders\<rparr> else s)
      in s1\<lparr>headers :=
            foldl prependMissing (headers s1)
              [''content-digest'', ''@query'', ''@path'', ''@method'']\<rparr>)"

text \<open>
  \<open>NewVerifier\<close> starts from \<open>verifier{nowFunc: time.Now}\<close>; the system clock
  \<open>time.Now\<close> is the argument \<open>time_Now\<close>.
\<close>

definition NewVerifier ::
  "'clock \<Rightarrow> ('rsa, 'ecdsa, 'res, 'clock) verifyOption list \<Rightarrow> ('rsa, 'ecdsa, 'res, 'clock) verifier" where
  "NewVerifier time_Now opts =
     foldl (\<lambda>v opt. configureVerify opt v)
       \<lparr>v_keys = Map.empty, resolver = None, nowFunc = time_Now\<rparr> opts"

subsection \<open>The functions of the package that httpsig.go calls\<close>

text \<open>
  \<open>calcDigest\<close>, \<open>verifyDigest\<close>, \<open>messageFromRequest\<close> and the methods \<open>signer.Sign\<close> and
  \<open>verifier.Verify\<close> of the embedded structures are defined in other files of the
  package. They are parameters of the model: every theorem below holds for any
  functions of these types. \<open>signer.Sign\<close> returns \<open>(http.Header, error)\<close>, here a sum
  with \<open>Inl\<close> the error; \<open>verifier.Verify\<close> returns \<open>(keyID, err)\<close>. They are taken to
  leave the request they are given as it is.
\<close>

record ('msg, 's, 'v) internals =
  calcDigest :: "bytes \<Rightarrow> string"
  verifyDigest :: "bytes \<Rightarrow> string \<Rightarrow> bool"
  messageFromRequest :: "request \<Rightarrow> 'msg"
  signer_Sign :: "'s \<Rightarrow> 'msg \<Rightarrow> error + header"
  verifier_Verify :: "'v \<Rightarrow> 'msg \<Rightarrow> string \<times> error option"

subsection \<open>Signer.Sign\<close>

text \<open>
  The result is what the call returns (\<open>None\<close> is a nil error) or that it panicked,
  together with the request as the call leaves it. The inner case is the block that
  buffers the body (lines 75 to 86): \<open>Inl\<close> is its early return with the read's error,
  \<open>Inr\<close> the buffer's bytes. \<open>Header.Set\<close> on a nil header map panics. The final loop
  assigns every entry of the signer's headers to the request's header map, which is the
  map override \<open>h2 ++ hdr\<close>.
\<close>

definition Sign ::
  "('msg, 's, 'v) internals \<Rightarrow> 's \<Rightarrow> request \<Rightarrow> error option outcome \<times> request" where
  "Sign I s r =
     (case (case Body r of
              None \<Rightarrow> Inr ([], r)
            | Some body \<Rightarrow>
                (case ReadFrom body of
                   (b, Some err, body1) \<Rightarrow> Inl (err, r\<lparr>Body := Some body1\<rparr>)
                 | (b, None, body1) \<Rightarrow>
                     Inr (b, r\<lparr>Body := Some (if length b \<noteq> 0 then NopCloser b
                                               else Close body1)\<rparr>))) of
        Inl (err, r1) \<Rightarrow> (Returns (Some err), r1)
      | Inr (b, r1) \<Rightarrow>
          (case Header r1 of
             None \<Rightarrow> (Panics ''assignment to entry in nil map'', r1)
           | Some h \<Rightarrow>
               (let h2 = Header_Set h ''Content-Digest'' (calcDigest I b);
                    r2 = r1\<lparr>Header := Some h2\<rparr>;
                    msg = messageFromRequest I r2
                in case signer_Sign I s msg of
                     Inl err \<Rightarrow> (Returns (Some err), r2)
                   | Inr hdr \<Rightarrow> (Returns None, r2\<lparr>Header := Some (h2 ++ hdr)\<rparr>))))"

subsection \<open>Verifier.Verify\<close>

text \<open>
  The result is the pair \<open>(keyID, err)\<close> the call returns and the request as the call
  leaves it. The body is read only after \<open>verifier.Verify\<close> returned no error (lines 137
  to 148, the same block as in \<open>Sign\<close>); \<open>Header.Get\<close> on a nil header map gives the
  empty string.
\<close>

definition Verify ::
  "('msg, 's, 'v) internals \<Rightarrow> 'v \<Rightarrow> request \<Rightarrow> (string \<times> error option) \<times> request" where
  "Verify I v r =
     (let msg = messageFromRequest I r in
      case verifier_Verify I v msg of
        (keyID, Some err) \<Rightarrow> ((keyID, Some err), r)
      | (keyID, None) \<Rightarrow>
          (case (case Body r of
                   None \<Rightarrow> Inr ([], r)
                 | Some body \<Rightarrow>
                     (case ReadFrom body of
                        (b, Some err, body1) \<Rightarrow> Inl (err, r\<lparr>Body := Some body1\<rparr>)
                      | (b, None, body1) \<Rightarrow>
                          Inr (b, r\<lparr>Body := Some (if length b \<noteq> 0 then NopCloser b
                                                    else Close body1)\<rparr>))) of
             Inl (err, r1) \<Rightarrow> ((keyID, Some err), r1)
           | Inr (b, r1) \<Rightarrow>
               (let dig = (case Header r1 of None \<Rightarrow> [] | Some h \<Rightarrow> Header_Get h ''Content-Digest'')
                in if dig \<noteq> [] \<and> \<not> verifyDigest I b dig
                   then ((keyID, Some (Error ''digest mismatch'')), r1)
                   else ((keyID, None), r1))))"

subsection \<open>NewSignTransport\<close>

text \<open>
  The round tripper that \<open>NewSignTransport\<close> returns, applied to a request. The wrapped
  transport is a function from the request to its \<open>(response, error)\<close> pair. The result
  is what \<open>RoundTrip\<close> returns, the request as the call leaves it, and the requests the
  wrapped transport was invoked with, in order.
\<close>

definition NewSignTransport ::
  "('msg, ('rsa, 'ecdsa) signer, 'v) internals \<Rightarrow> (request \<Rightarrow> 'resp option \<times> error option)
     \<Rightarrow> ('rsa, 'ecdsa) signOption list \<Rightarrow> request
     \<Rightarrow> ('resp option \<times> error option) outcome \<times> request \<times> request list" where
  "NewSignTransport I transport opts r =
     (let s = NewSigner opts in
      case Sign I s r of
        (Returns (Some err), r1) \<Rightarrow> (Returns (None, Some err), r1, [])
      | (Returns None, r1) \<Rightarrow> (Returns (transport r1), r1, [r1])
      | (Panics p, r1) \<Rightarrow> (Panics p, r1, []))"

subsection \<open>NewVerifyMiddleware\<close>

definition serveErr :: "responseWriter \<Rightarrow> responseWriter" where
  "serveErr rw =
     (let rw1 = rw\<lparr>handlerHeader := Header_Set (handlerHeader rw) ''Content-Type'' ''text/plain''\<rparr>;
          rw2 = WriteHeader rw1 StatusBadRequest
      in Write rw2 ''invalid required signature'')"

text \<open>
  The handler that the middleware returns for the wrapped handler \<open>h\<close>, applied to a
  response writer and a request. A handler is a function from the response writer and
  the request to the response writer it leaves. The result is the response writer at
  the end and the requests the wrapped handler was invoked with, in order.
\<close>

definition NewVerifyMiddleware ::
  "('msg, 's, ('rsa, 'ecdsa, 'res, 'clock) verifier) internals \<Rightarrow> 'clock
     \<Rightarrow> ('rsa, 'ecdsa, 'res, 'clock) verifyOption list
     \<Rightarrow> (responseWriter \<Rightarrow> request \<Rightarrow> responseWriter)
     \<Rightarrow> responseWriter \<Rightarrow> request \<Rightarrow> responseWriter \<times> request list" where
  "NewVerifyMiddleware I time_Now opts h rw r =
     (let v = NewVerifier time_Now opts in
      case Verify I v r of
        ((keyID, Some err), r1) \<Rightarrow> (serveErr rw, [])
      | ((keyID, None), r1) \<Rightarrow> (h rw r1, [r1]))"

subsection \<open>Observations used to state the properties\<close>

text \<open>
  The header list the caller specified, as \<open>NewSigner\<close> sees it after the option loop:
  the configured list, or \<open>defaultHeaders\<close> when none is configured.
\<close>

definition callerHeaders :: "('rsa, 'ecdsa) signOption list \<Rightarrow> string list" where
  "callerHeaders opts =
     (if length (headers (configuredSigner opts)) = 0 then defaultHeaders
      else headers (configuredSigner opts))"

text \<open>
  What a full read of the request's body delivers: the bytes (none for a nil body) and
  the error the read stops with, if any.
\<close>

definition bodyBytes :: "request \<Rightarrow> bytes" where
  "bodyBytes r = (case Body r of None \<Rightarrow> [] | Some body \<Rightarrow> fst (ReadFrom body))"

definition readError :: "request \<Rightarrow> error option" where
  "readError r = (case Body r of None \<Rightarrow> None | Some body \<Rightarrow> fst (snd (ReadFrom body)))"

text \<open>
  The request as the body-reading block that opens \<open>Sign\<close> (lines 75 to 86) and follows
  the signature check in \<open>Verify\<close> (lines 137 to 148) leaves it.
\<close>

definition afterRead :: "request \<Rightarrow> request" where
  "afterRead r =
     (case Body r of
        None \<Rightarrow> r
      | Some body \<Rightarrow>
          (case ReadFrom body of
             (b, Some err, body1) \<Rightarrow> r\<lparr>Body := Some body1\<rparr>
           | (b, None, body1) \<Rightarrow>
               r\<lparr>Body := Some (if length b \<noteq> 0 then NopCloser b else Close body1)\<rparr>))"

text \<open>
  The values of a header of the request (\<open>r.Header[key]\<close>), and \<open>r.Header.Get(key)\<close>.
\<close>

definition headerValues :: "request \<Rightarrow> string \<Rightarrow> string list option" where
  "headerValues r key = (case Header r of None \<Rightarrow> None | Some h \<Rightarrow> h key)"

definition headerGet :: "request \<Rightarrow> string \<Rightarrow> string" where
  "headerGet r key = (case Header r of None \<Rightarrow> [] | Some h \<Rightarrow> Header_Get h key)"

subsection \<open>A concrete instance\<close>

text \<open>
  One instance of the parameters, to run the operations on concrete requests. The
  digest is a stand-in that wraps the body bytes themselves (not SHA-512); the signer
  gives a fixed result to every message; the verifier accepts, with key id \<open>test-key\<close>,
  exactly the messages that carry a \<open>Signature\<close> header. The request is \<open>GET /foo?bar=1\<close>
  with a \<open>Content-Type\<close> header and no body.
\<close>

definition sample_signature_headers :: header where
  "sample_signature_headers =
     [''Signature-Input'' \<mapsto> [''sig1=();created=1618884473;keyid=test-key''],
      ''Signature'' \<mapsto> [''sig1=:c2lnbmF0dXJl:'']]"

definition sample_sign_opts :: "(unit, unit) signOption list" where
  "sample_sign_opts = [WithHmacSha256_s ''test-key'' ''secret'', WithHeaders [''content-type'']]"

definition sample_verify_opts :: "(unit, unit, unit, unit) verifyOption list" where
  "sample_verify_opts = [WithHmacSha256_v ''test-key'' ''secret'']"

definition sample_internals ::
  "error + header \<Rightarrow> (request, (unit, unit) signer, (unit, unit, unit, unit) verifier) internals" where
  "sample_internals signed =
     \<lparr>calcDigest = (\<lambda>b. ''sha-512=:'' @ b @ '':''),
      verifyDigest = (\<lambda>b dig. dig = ''sha-512=:'' @ b @ '':''),
      messageFromRequest = (\<lambda>r. r),
      signer_Sign = (\<lambda>s msg. signed),
      verifier_Verify = (\<lambda>v msg.
        if headerGet msg ''Signature'' = [] then ([], Some (Error ''missing signature''))
        else (''test-key'', None))\<rparr>"

definition sample_request :: request where
  "sample_request =
     \<lparr>Method = ''GET'', URL = ''/foo?bar=1'', Host = ''example.com'',
      Header = Some [''Content-Type'' \<mapsto> [''application/json'']], Body = None\<rparr>"

definition sample_signed_request :: request where
  "sample_signed_request =
     sample_request\<lparr>Header := Some ([''Content-Type'' \<mapsto> [''application/json'']]
                                      ++ sample_signature_headers)\<rparr>"

definition sample_handler :: "responseWriter \<Rightarrow> request \<Rightarrow> responseWriter" where
  "sample_handler rw r = Write rw ''ok''"

definition sample_transport :: "request \<Rightarrow> nat option \<times> error option" where
  "sample_transport r = (Some 200, None)"

definition new_responseWriter :: responseWriter where
  "new_responseWriter = \<lparr>handlerHeader = Map.empty, wroteHeader = None, written = []\<rparr>"

section \<open>Properties\<close>

subsection \<open>The covered components of a new signer\<close>

lemma sliceHas_iff: "sliceHas haystack needle \<longleftrightarrow> needle \<in> set haystack"
  by (induction haystack) auto

lemma prependMissing_eq:
  "prependMissing hs c = (if c \<in> set hs then hs else c # hs)"
  by (simp add: prependMissing_def sliceHas_iff)

lemma NewSigner_headers:
  "headers (NewSigner opts) =
     foldl prependMissing (callerHeaders opts)
       [''content-digest'', ''@query'', ''@path'', ''@method'']"
  by (simp add: NewSigner_def callerHeaders_def Let_def)

lemma count_prependMissing:
  "count_list (prependMissing hs c) x =
     (if x = c then max 1 (count_list hs x) else count_list hs x)"
proof (cases "c \<in> set hs")
  case True
  then have "count_list hs c \<noteq> 0" by (simp add: count_list_0_iff)
  with True show ?thesis by (simp add: prependMissing_eq max_def)
next
  case False
  then have "count_list hs c = 0" by (simp add: count_list_0_iff)
  with False show ?thesis by (simp add: prependMissing_eq)
qed

lemma count_foldl_prependMissing:
  "distinct cs \<Longrightarrow>
   count_list (foldl prependMissing hs cs) x =
     (if x \<in> set cs then max 1 (count_list hs x) else count_list hs x)"
proof (induction cs arbitrary: hs)
  case Nil
  then show ?case by simp
next
  case (Cons c cs)
  then show ?case by (simp add: count_prependMissing)
qed

lemma specialty_distinct: "distinct [''content-digest'', ''@query'', ''@path'', ''@method'']"
  by simp

text \<open>
  Claim C2, as the code has it. Each round of the loop puts the component in front of
  the list built so far, so the four identifiers end up in the reverse of the order in
  which the loop visits them: the covered-component list of every signer is the
  caller-specified headers (the defaults when none are given), preceded by those of
  \<open>@method\<close>, \<open>@path\<close>, \<open>@query\<close>, \<open>content-digest\<close> that the caller's list does not already
  contain, in exactly this order. An identifier the caller listed stays where the caller
  put it.
\<close>

theorem NewSigner_headers_order:
  "headers (NewSigner opts) =
     filter (\<lambda>c. c \<notin> set (callerHeaders opts))
       [''@method'', ''@path'', ''@query'', ''content-digest'']
     @ callerHeaders opts"
  by (simp add: NewSigner_headers prependMissing_eq)

text \<open>
  Claim C2 as stated fails: for the caller's list \<open>content-type\<close> the list does not begin
  with \<open>content-digest\<close>, \<open>@query\<close>, \<open>@path\<close>, \<open>@method\<close>; it is
  \<open>@method\<close>, \<open>@path\<close>, \<open>@query\<close>, \<open>content-digest\<close>, \<open>content-type\<close>.
\<close>

theorem NewSigner_headers_order_counterexample:
  "take 4 (headers (NewSigner [WithHeaders [''content-type'']] :: (unit, unit) signer))
     \<noteq> [''content-digest'', ''@query'', ''@path'', ''@method'']
   \<and> headers (NewSigner [WithHeaders [''content-type'']] :: (unit, unit) signer)
     = [''@method'', ''@path'', ''@query'', ''content-digest'', ''content-type'']"
  by (simp add: NewSigner_def configuredSigner_def configureSign_def WithHeaders_def
      prependMissing_eq)

text \<open>
  Claim C6, as the code has it. The loop adds a specialty identifier only when the list
  lacks it and never removes anything, so each of \<open>content-digest\<close>, \<open>@query\<close>, \<open>@path\<close>,
  \<open>@method\<close> occurs in the final list as often as in the caller's list, and once when the
  caller's list lacks it. It occurs exactly once whenever the caller's list contains it
  at most once.
\<close>

theorem NewSigner_specialty_count:
  assumes "c \<in> set [''content-digest'', ''@query'', ''@path'', ''@method'']"
  shows "count_list (headers (NewSigner opts)) c
           = max 1 (count_list (headers (configuredSigner opts)) c)"
proof -
  have "count_list (headers (NewSigner opts)) c = max 1 (count_list (callerHeaders opts) c)"
    unfolding NewSigner_headers count_foldl_prependMissing [OF specialty_distinct]
    using assms by simp
  moreover have "max 1 (count_list (callerHeaders opts) c)
                   = max 1 (count_list (headers (configuredSigner opts)) c)"
    using assms by (auto simp: callerHeaders_def defaultHeaders_def)
  ultimately show ?thesis by simp
qed

theorem NewSigner_specialty_count_witness:
  "''@path'' \<in> set [''content-digest'', ''@query'', ''@path'', ''@method'']
   \<and> count_list (headers (NewSigner [WithHeaders [''@path'', ''date'']] :: (unit, unit) signer))
        ''@path'' = 1"
  using NewSigner_specialty_count [of "''@path''" "[WithHeaders [''@path'', ''date'']]"]
  by (simp add: configuredSigner_def configureSign_def WithHeaders_def)

text \<open>
  Claim C6 as stated fails: the caller's list is not de-duplicated, so for the caller's
  list \<open>@method\<close>, \<open>@method\<close> the identifier \<open>@method\<close> occurs twice in the final list.
\<close>

theorem NewSigner_specialty_count_counterexample:
  "count_list
     (headers (NewSigner [WithHeaders [''@method'', ''@method'']] :: (unit, unit) signer))
     ''@method'' = 2"
  by (simp add: NewSigner_def configuredSigner_def configureSign_def WithHeaders_def
      prependMissing_eq)

text \<open>
  Claim C7. When the option loop leaves no header configured (no \<open>WithHeaders\<close> option,
  or one with an empty list), the covered-component list is the four specialty
  identifiers followed by exactly \<open>content-type\<close>, \<open>content-length\<close>.
\<close>

theorem NewSigner_default_headers:
  "headers (configuredSigner opts) = [] \<Longrightarrow>
   headers (NewSigner opts)
     = [''@method'', ''@path'', ''@query'', ''content-digest'']
       @ [''content-type'', ''content-length'']"
  by (simp add: NewSigner_headers callerHeaders_def defaultHeaders_def prependMissing_eq)

theorem NewSigner_default_headers_witness:
  "headers (configuredSigner
      ([WithHmacSha256_s ''test-key'' ''secret'', WithHeaders []] :: (unit, unit) signOption list))
     = []
   \<and> headers (NewSigner [WithHmacSha256_s ''test-key'' ''secret'', WithHeaders []]
        :: (unit, unit) signer)
     = [''@method'', ''@path'', ''@query'', ''content-digest'']
       @ [''content-type'', ''content-length'']"
  using NewSigner_default_headers
    [of "[WithHmacSha256_s ''test-key'' ''secret'', WithHeaders []] :: (unit, unit) signOption list"]
  by (simp add: configuredSigner_def configureSign_def WithHeaders_def WithHmacSha256_s_def)

subsection \<open>Signer.Sign and Verifier.Verify, case by case\<close>

lemmas sample_defs = sample_internals_def sample_request_def sample_signed_request_def
  sample_signature_headers_def sample_sign_opts_def sample_verify_opts_def
  readError_def bodyBytes_def headerGet_def headerValues_def Header_Get_def

lemma Header_afterRead: "Header (afterRead r) = Header r"
  by (simp add: afterRead_def split: option.splits prod.splits)

lemma Body_afterRead_nil: "Body r = None \<Longrightarrow> Body (afterRead r) = None"
  by (simp add: afterRead_def)

lemma Body_afterRead:
  "Body r = Some body \<Longrightarrow> ReadFrom body = (b, err, body1) \<Longrightarrow>
   Body (afterRead r) =
     Some (if err = None then (if b = [] then Close body1 else NopCloser b) else body1)"
  by (cases err) (simp_all add: afterRead_def)

text \<open>A body read that stops with an error: \<open>Sign\<close> returns it and touches no header.\<close>

lemma Sign_read_failed:
  assumes "readError r = Some e"
  shows "Sign I s r = (Returns (Some e), afterRead r)"
proof -
  from assms obtain body where B: "Body r = Some body"
    by (cases "Body r") (simp_all add: readError_def)
  obtain b err body1 where R: "ReadFrom body = (b, err, body1)"
    by (cases "ReadFrom body")
  with B assms have E: "err = Some e" by (simp add: readError_def)
  show ?thesis by (simp add: Sign_def afterRead_def B R E)
qed

lemma Sign_read_ok:
  assumes "readError r = None"
  shows "Sign I s r =
     (case Header r of
        None \<Rightarrow> (Panics ''assignment to entry in nil map'', afterRead r)
      | Some h \<Rightarrow>
          (let h2 = h(''Content-Digest'' \<mapsto> [calcDigest I (bodyBytes r)]);
               r2 = (afterRead r)\<lparr>Header := Some h2\<rparr>
           in case signer_Sign I s (messageFromRequest I r2) of
                Inl err \<Rightarrow> (Returns (Some err), r2)
              | Inr hdr \<Rightarrow> (Returns None, r2\<lparr>Header := Some (h2 ++ hdr)\<rparr>)))"
proof (cases "Body r")
  case None
  then show ?thesis
    by (cases "Header r")
       (simp_all add: Sign_def afterRead_def bodyBytes_def Header_Set_def Let_def)
next
  case (Some body)
  obtain b err body1 where R: "ReadFrom body = (b, err, body1)"
    by (cases "ReadFrom body")
  with Some assms have E: "err = None" by (simp add: readError_def)
  show ?thesis
    by (cases "Header r")
       (simp_all add: Sign_def afterRead_def bodyBytes_def Header_Set_def Let_def Some R E)
qed

lemma Sign_success:
  assumes "fst (Sign I s r) = Returns None"
  obtains h hdr where "readError r = None" and "Header r = Some h"
    and "signer_Sign I s (messageFromRequest I ((afterRead r)\<lparr>Header :=
           Some (h(''Content-Digest'' \<mapsto> [calcDigest I (bodyBytes r)]))\<rparr>)) = Inr hdr"
    and "snd (Sign I s r) = (afterRead r)\<lparr>Header :=
           Some (h(''Content-Digest'' \<mapsto> [calcDigest I (bodyBytes r)]) ++ hdr)\<rparr>"
proof (cases "readError r")
  case (Some e)
  with assms show ?thesis by (simp add: Sign_read_failed)
next
  case None
  note ok = Sign_read_ok [OF None, of I s]
  show ?thesis
  proof (cases "Header r")
    case N: None
    with assms ok show ?thesis by simp
  next
    case (Some h)
    let ?r2 = "(afterRead r)\<lparr>Header :=
           Some (h(''Content-Digest'' \<mapsto> [calcDigest I (bodyBytes r)]))\<rparr>"
    show ?thesis
    proof (cases "signer_Sign I s (messageFromRequest I ?r2)")
      case (Inl err)
      with assms ok Some show ?thesis by (simp add: Let_def)
    next
      case (Inr hdr)
      with ok Some have "snd (Sign I s r) = ?r2\<lparr>Header :=
           Some (h(''Content-Digest'' \<mapsto> [calcDigest I (bodyBytes r)]) ++ hdr)\<rparr>"
        by (simp add: Let_def)
      with that None Some Inr show ?thesis by simp
    qed
  qed
qed

lemma Verify_inner_failed:
  "verifier_Verify I v (messageFromRequest I r) = (keyID, Some e) \<Longrightarrow>
   Verify I v r = ((keyID, Some e), r)"
  by (simp add: Verify_def)

lemma Verify_read_failed:
  assumes "verifier_Verify I v (messageFromRequest I r) = (keyID, None)"
    and "readError r = Some e"
  shows "Verify I v r = ((keyID, Some e), afterRead r)"
proof -
  from assms(2) obtain body where B: "Body r = Some body"
    by (cases "Body r") (simp_all add: readError_def)
  obtain b err body1 where R: "ReadFrom body = (b, err, body1)"
    by (cases "ReadFrom body")
  with B assms(2) have E: "err = Some e" by (simp add: readError_def)
  show ?thesis by (simp add: Verify_def afterRead_def assms(1) B R E)
qed

lemma Verify_read_ok:
  assumes "verifier_Verify I v (messageFromRequest I r) = (keyID, None)"
    and "readError r = None"
  shows "Verify I v r =
     ((keyID,
       if headerGet r ''Content-Digest'' \<noteq> []
          \<and> \<not> verifyDigest I (bodyBytes r) (headerGet r ''Content-Digest'')
       then Some (Error ''digest mismatch'') else None),
      afterRead r)"
proof (cases "Body r")
  case None
  then show ?thesis
    by (simp add: Verify_def afterRead_def bodyBytes_def headerGet_def assms(1) Let_def)
next
  case (Some body)
  obtain b err body1 where R: "ReadFrom body = (b, err, body1)"
    by (cases "ReadFrom body")
  with Some assms(2) have E: "err = None" by (simp add: readError_def)
  show ?thesis
    by (simp add: Verify_def afterRead_def bodyBytes_def headerGet_def assms(1) Let_def Some R E)
qed

lemma Body_Sign: "Body (snd (Sign I s r)) = Body (afterRead r)"
proof (cases "readError r")
  case None
  show ?thesis unfolding Sign_read_ok [OF None]
    by (simp add: Let_def split: option.splits sum.splits)
next
  case (Some e)
  then show ?thesis by (simp add: Sign_read_failed)
qed

lemma Body_Verify:
  "Body (snd (Verify I v r)) =
     (if snd (verifier_Verify I v (messageFromRequest I r)) \<noteq> None then Body r
      else Body (afterRead r))"
proof (cases "verifier_Verify I v (messageFromRequest I r)")
  case (Pair keyID err)
  show ?thesis
  proof (cases err)
    case None
    with Pair show ?thesis
      by (cases "readError r") (simp_all add: Verify_read_ok Verify_read_failed)
  next
    case (Some e)
    with Pair show ?thesis by (simp add: Verify_inner_failed)
  qed
qed

lemma serveErr_unwritten:
  "wroteHeader rw = None \<Longrightarrow>
   serveErr rw =
     \<lparr>handlerHeader = (handlerHeader rw)(''Content-Type'' \<mapsto> [''text/plain'']),
      wroteHeader = Some (400, (handlerHeader rw)(''Content-Type'' \<mapsto> [''text/plain''])),
      written = written rw @ ''invalid required signature''\<rparr>"
  by (simp add: serveErr_def WriteHeader_def Write_def Header_Set_def StatusBadRequest_def Let_def)

subsection \<open>Signer.Sign: the headers it leaves\<close>

text \<open>
  Claim C1, as the code has it. \<open>Sign\<close> sets \<open>Content-Digest\<close> (line 90) before it builds
  the message and calls the signer (lines 92 and 93), and copies the signer's headers
  onto the request only after the signer returned without error (lines 98 to 100). So
  when \<open>Sign\<close> returns an error that is not the body read's, it is the signer's error,
  and the request's headers are the ones it had before the call with \<open>Content-Digest\<close>
  set to the digest of the body: every other header, \<open>Signature-Input\<close> and
  \<open>Signature\<close> among them, is exactly as before.
\<close>

theorem Sign_signing_failure_headers:
  assumes "fst (Sign I s r) = Returns (Some e)" and "readError r = None"
  shows "signer_Sign I s (messageFromRequest I (snd (Sign I s r))) = Inl e
     \<and> (\<exists>h. Header r = Some h
          \<and> Header (snd (Sign I s r))
              = Some (h(''Content-Digest'' \<mapsto> [calcDigest I (bodyBytes r)])))
     \<and> headerValues (snd (Sign I s r)) ''Content-Digest'' = Some [calcDigest I (bodyBytes r)]
     \<and> (\<forall>key. key \<noteq> ''Content-Digest'' \<longrightarrow>
          headerValues (snd (Sign I s r)) key = headerValues r key)"
  using assms(1) unfolding Sign_read_ok [OF assms(2)]
  by (simp add: Let_def headerValues_def Header_afterRead split: option.splits sum.splits)

theorem Sign_signing_failure_headers_witness:
  "fst (Sign (sample_internals (Inl (Error ''signing failed''))) (NewSigner sample_sign_opts)
          sample_request) = Returns (Some (Error ''signing failed''))
   \<and> readError sample_request = None
   \<and> Header (snd (Sign (sample_internals (Inl (Error ''signing failed'')))
                     (NewSigner sample_sign_opts) sample_request))
       = Some ([''Content-Type'' \<mapsto> [''application/json'']]
                 (''Content-Digest'' \<mapsto> [''sha-512=::'']))
   \<and> headerValues (snd (Sign (sample_internals (Inl (Error ''signing failed'')))
                     (NewSigner sample_sign_opts) sample_request)) ''Signature'' = None"
proof -
  let ?I = "sample_internals (Inl (Error ''signing failed''))"
  let ?s = "NewSigner sample_sign_opts"
  have 1: "fst (Sign ?I ?s sample_request) = Returns (Some (Error ''signing failed''))"
    by (simp add: Sign_def sample_defs Let_def)
  have 2: "readError sample_request = None" by (simp add: sample_defs)
  from Sign_signing_failure_headers [OF 1 2] 1 2 show ?thesis by (auto simp: sample_defs)
qed

text \<open>
  Claim C1 as stated fails: on a request without a \<open>Content-Digest\<close> header and a signer
  whose signing fails, \<open>Sign\<close> returns the error and the request carries a
  \<open>Content-Digest\<close> header afterwards.
\<close>

theorem Sign_signing_failure_headers_counterexample:
  "fst (Sign (sample_internals (Inl (Error ''signing failed''))) (NewSigner sample_sign_opts)
          sample_request) = Returns (Some (Error ''signing failed''))
   \<and> headerValues sample_request ''Content-Digest'' = None
   \<and> headerValues (snd (Sign (sample_internals (Inl (Error ''signing failed'')))
                           (NewSigner sample_sign_opts) sample_request)) ''Content-Digest''
       = Some [''sha-512=::'']"
  by (simp add: Sign_def sample_defs Let_def Header_Set_def)

text \<open>
  Claim C5. A call of \<open>Sign\<close> that returns without error leaves a \<open>Content-Digest\<close> header
  on the request. The signer's headers are copied over the request's afterwards, so the
  value is the digest \<open>Sign\<close> computed whenever the signer emits no \<open>Content-Digest\<close>
  entry of its own (it emits \<open>Signature-Input\<close> and \<open>Signature\<close>): the digest of the
  bytes read from the body, and the digest of zero bytes for a nil or empty body.
\<close>

theorem Sign_sets_Content_Digest:
  assumes "fst (Sign I s r) = Returns None"
  shows "headerValues (snd (Sign I s r)) ''Content-Digest'' \<noteq> None
     \<and> ((\<forall>msg hdr. signer_Sign I s msg = Inr hdr \<longrightarrow> ''Content-Digest'' \<notin> dom hdr) \<longrightarrow>
          headerValues (snd (Sign I s r)) ''Content-Digest''
            = Some [calcDigest I (bodyBytes r)]
          \<and> (Body r = None \<or> bodyBytes r = [] \<longrightarrow>
               headerValues (snd (Sign I s r)) ''Content-Digest'' = Some [calcDigest I []]))"
proof -
  from assms obtain h hdr where
    S: "signer_Sign I s (messageFromRequest I ((afterRead r)\<lparr>Header :=
           Some (h(''Content-Digest'' \<mapsto> [calcDigest I (bodyBytes r)]))\<rparr>)) = Inr hdr"
    and R: "snd (Sign I s r) = (afterRead r)\<lparr>Header :=
           Some (h(''Content-Digest'' \<mapsto> [calcDigest I (bodyBytes r)]) ++ hdr)\<rparr>"
    by (rule Sign_success)
  have V: "headerValues (snd (Sign I s r)) ''Content-Digest''
        = (case hdr ''Content-Digest'' of
             None \<Rightarrow> Some [calcDigest I (bodyBytes r)] | Some vs \<Rightarrow> Some vs)"
    by (simp add: R headerValues_def map_add_def split: option.splits)
  have N: "Body r = None \<Longrightarrow> bodyBytes r = []" by (simp add: bodyBytes_def)
  have "headerValues (snd (Sign I s r)) ''Content-Digest'' \<noteq> None"
    by (simp add: V split: option.splits)
  moreover have "headerValues (snd (Sign I s r)) ''Content-Digest''
            = Some [calcDigest I (bodyBytes r)]
          \<and> (Body r = None \<or> bodyBytes r = [] \<longrightarrow>
               headerValues (snd (Sign I s r)) ''Content-Digest'' = Some [calcDigest I []])"
    if "\<forall>msg hdr. signer_Sign I s msg = Inr hdr \<longrightarrow> ''Content-Digest'' \<notin> dom hdr"
  proof -
    from that S have "hdr ''Content-Digest'' = None" by blast
    then have "headerValues (snd (Sign I s r)) ''Content-Digest''
                 = Some [calcDigest I (bodyBytes r)]"
      by (simp add: V)
    with N show ?thesis by auto
  qed
  ultimately show ?thesis by blast
qed

theorem Sign_sets_Content_Digest_witness:
  "fst (Sign (sample_internals (Inr sample_signature_headers)) (NewSigner sample_sign_opts)
          sample_request) = Returns None
   \<and> bodyBytes sample_request = []
   \<and> headerValues (snd (Sign (sample_internals (Inr sample_signature_headers))
                           (NewSigner sample_sign_opts) sample_request)) ''Content-Digest''
       = Some [''sha-512=::'']"
proof -
  let ?I = "sample_internals (Inr sample_signature_headers)"
  let ?s = "NewSigner sample_sign_opts"
  have 1: "fst (Sign ?I ?s sample_request) = Returns None"
    by (simp add: Sign_def sample_defs Let_def)
  have 2: "\<forall>msg hdr. signer_Sign ?I ?s msg = Inr hdr \<longrightarrow> ''Content-Digest'' \<notin> dom hdr"
    by (auto simp: sample_defs)
  have 3: "bodyBytes sample_request = []" by (simp add: sample_defs)
  from Sign_sets_Content_Digest [OF 1] 2
  have "headerValues (snd (Sign ?I ?s sample_request)) ''Content-Digest''
       = Some [calcDigest ?I (bodyBytes sample_request)]" by blast
  with 1 3 show ?thesis by (simp add: sample_internals_def)
qed

subsection \<open>Verifier.Verify: the digest check\<close>

text \<open>
  Claim C4, as the code has it. \<open>Verify\<close> reads the body between the signature check and
  the digest check and returns the read's error (lines 139 to 142). So: when the
  signature verification succeeds, \<open>Header.Get\<close> gives no \<open>Content-Digest\<close> value, and
  the body is nil or is read to its end without error, \<open>Verify\<close> returns the
  authenticated key id and no error, whatever the bytes of the body are; the digest
  check is made only when the header is present.
\<close>

theorem Verify_without_Content_Digest:
  assumes "verifier_Verify I v (messageFromRequest I r) = (keyID, None)"
    and "headerGet r ''Content-Digest'' = []"
    and "readError r = None"
  shows "fst (Verify I v r) = (keyID, None)"
  by (simp add: Verify_read_ok [OF assms(1) assms(3)] assms(2))

theorem Verify_without_Content_Digest_witness:
  "verifier_Verify (sample_internals (Inr sample_signature_headers))
      (NewVerifier () sample_verify_opts)
      (messageFromRequest (sample_internals (Inr sample_signature_headers))
         (sample_signed_request\<lparr>Body :=
            Some (Stream \<lparr>pending = ''hello'', failure = None, closed = False\<rparr>)\<rparr>))
     = (''test-key'', None)
   \<and> fst (Verify (sample_internals (Inr sample_signature_headers))
            (NewVerifier () sample_verify_opts)
            (sample_signed_request\<lparr>Body :=
               Some (Stream \<lparr>pending = ''hello'', failure = None, closed = False\<rparr>)\<rparr>))
     = (''test-key'', None)"
proof -
  let ?I = "sample_internals (Inr sample_signature_headers)"
  let ?v = "NewVerifier () sample_verify_opts"
  let ?r = "sample_signed_request\<lparr>Body :=
              Some (Stream \<lparr>pending = ''hello'', failure = None, closed = False\<rparr>)\<rparr>"
  have 1: "verifier_Verify ?I ?v (messageFromRequest ?I ?r) = (''test-key'', None)"
    by (simp add: sample_defs)
  have 2: "headerGet ?r ''Content-Digest'' = []" by (simp add: sample_defs)
  have 3: "readError ?r = None" by (simp add: sample_defs)
  from Verify_without_Content_Digest [OF 1 2 3] 1 show ?thesis by simp
qed

text \<open>
  Claim C4 as stated fails: for a request whose signature verifies and which has no
  \<open>Content-Digest\<close> header, but whose body stops with a read error after three bytes,
  \<open>Verify\<close> returns the key id together with that error.
\<close>

theorem Verify_without_Content_Digest_counterexample:
  "verifier_Verify (sample_internals (Inr sample_signature_headers))
      (NewVerifier () sample_verify_opts)
      (messageFromRequest (sample_internals (Inr sample_signature_headers))
         (sample_signed_request\<lparr>Body := Some (Stream
            \<lparr>pending = ''hel'', failure = Some (Error ''unexpected EOF''), closed = False\<rparr>)\<rparr>))
     = (''test-key'', None)
   \<and> headerValues (sample_signed_request\<lparr>Body := Some (Stream
            \<lparr>pending = ''hel'', failure = Some (Error ''unexpected EOF''), closed = False\<rparr>)\<rparr>)
        ''Content-Digest'' = None
   \<and> fst (Verify (sample_internals (Inr sample_signature_headers))
            (NewVerifier () sample_verify_opts)
            (sample_signed_request\<lparr>Body := Some (Stream
               \<lparr>pending = ''hel'', failure = Some (Error ''unexpected EOF''), closed = False\<rparr>)\<rparr>))
     = (''test-key'', Some (Error ''unexpected EOF''))"
  by (simp add: Verify_def sample_defs Let_def)

text \<open>
  Claim C9. When the signature verification succeeds with key id \<open>keyID\<close>, the body is
  read without error, a \<open>Content-Digest\<close> value is present and the digest of the body
  does not match it, \<open>Verify\<close> returns that same key id together with the error
  \<open>digest mismatch\<close>: a key id that is not empty stays not empty.
\<close>

theorem Verify_digest_mismatch_keeps_keyID:
  assumes "verifier_Verify I v (messageFromRequest I r) = (keyID, None)"
    and "readError r = None"
    and "headerGet r ''Content-Digest'' \<noteq> []"
    and "\<not> verifyDigest I (bodyBytes r) (headerGet r ''Content-Digest'')"
  shows "fst (Verify I v r) = (keyID, Some (Error ''digest mismatch''))
     \<and> (keyID \<noteq> [] \<longrightarrow> fst (fst (Verify I v r)) \<noteq> [])"
  by (simp add: Verify_read_ok [OF assms(1) assms(2)] assms(3) assms(4))

theorem Verify_digest_mismatch_keeps_keyID_witness:
  "fst (Verify (sample_internals (Inr sample_signature_headers))
          (NewVerifier () sample_verify_opts)
          (sample_signed_request
             \<lparr>Header := Some ([''Content-Digest'' \<mapsto> [''sha-512=:hello:'']]
                               ++ sample_signature_headers),
              Body := Some (Stream \<lparr>pending = ''HELLO'', failure = None, closed = False\<rparr>)\<rparr>))
     = (''test-key'', Some (Error ''digest mismatch''))
   \<and> ''test-key'' \<noteq> []"
proof -
  let ?I = "sample_internals (Inr sample_signature_headers)"
  let ?v = "NewVerifier () sample_verify_opts"
  let ?r = "sample_signed_request
             \<lparr>Header := Some ([''Content-Digest'' \<mapsto> [''sha-512=:hello:'']]
                               ++ sample_signature_headers),
              Body := Some (Stream \<lparr>pending = ''HELLO'', failure = None, closed = False\<rparr>)\<rparr>"
  have 1: "verifier_Verify ?I ?v (messageFromRequest ?I ?r) = (''test-key'', None)"
    by (simp add: sample_defs)
  have 2: "readError ?r = None" by (simp add: sample_defs)
  have 3: "headerGet ?r ''Content-Digest'' \<noteq> []" by (simp add: sample_defs)
  have 4: "\<not> verifyDigest ?I (bodyBytes ?r) (headerGet ?r ''Content-Digest'')"
    by (simp add: sample_defs)
  from Verify_digest_mismatch_keeps_keyID [OF 1 2 3 4] show ?thesis by simp
qed

subsection \<open>The request body after Sign and Verify\<close>

text \<open>
  Claim C10. A nil body stays nil. For a body whose read gives the bytes \<open>b\<close> and leaves
  the stream \<open>body1\<close>: when the read ends without error and \<open>b\<close> is empty, the request
  keeps the original stream, closed, and no reader is installed; a new reader over \<open>b\<close>
  replaces the body only when the read ends without error and \<open>b\<close> has at least one
  byte; a read that stops with an error returns at once, with the stream as the read
  left it. \<open>Sign\<close> always reads the body; \<open>Verify\<close> reads it only after the signature
  verification succeeded, and leaves the body untouched otherwise.
\<close>

theorem body_replacement:
  "(Body r = None \<longrightarrow>
      Body (snd (Sign I s r)) = None \<and> Body (snd (Verify I v r)) = None)
   \<and> (\<forall>body b err body1. Body r = Some body \<and> ReadFrom body = (b, err, body1) \<longrightarrow>
        Body (snd (Sign I s r)) =
          Some (if err = None then (if b = [] then Close body1 else NopCloser b) else body1)
      \<and> Body (snd (Verify I v r)) =
          Some (if snd (verifier_Verify I v (messageFromRequest I r)) \<noteq> None then body
                else if err = None then (if b = [] then Close body1 else NopCloser b)
                else body1))"
  by (simp add: Body_Sign Body_Verify Body_afterRead_nil Body_afterRead)

theorem body_replacement_witness:
  "Body (snd (Sign (sample_internals (Inr sample_signature_headers)) (NewSigner sample_sign_opts)
        (sample_request\<lparr>Body :=
           Some (Stream \<lparr>pending = [], failure = None, closed = False\<rparr>)\<rparr>)))
     = Some (Stream \<lparr>pending = [], failure = None, closed = True\<rparr>)
   \<and> Body (snd (Verify (sample_internals (Inr sample_signature_headers))
        (NewVerifier () sample_verify_opts)
        (sample_signed_request\<lparr>Body :=
           Some (Stream \<lparr>pending = [], failure = None, closed = False\<rparr>)\<rparr>)))
     = Some (Stream \<lparr>pending = [], failure = None, closed = True\<rparr>)
   \<and> Body (snd (Sign (sample_internals (Inr sample_signature_headers)) (NewSigner sample_sign_opts)
        (sample_request\<lparr>Body :=
           Some (Stream \<lparr>pending = ''{}'', failure = None, closed = False\<rparr>)\<rparr>)))
     = Some (NopCloser ''{}'')
   \<and> Body (snd (Sign (sample_internals (Inr sample_signature_headers)) (NewSigner sample_sign_opts)
        sample_request)) = None"
proof -
  let ?I = "sample_internals (Inr sample_signature_headers)"
  let ?s = "NewSigner sample_sign_opts"
  let ?v = "NewVerifier () sample_verify_opts"
  let ?e = "Stream \<lparr>pending = [], failure = None, closed = False\<rparr>"
  let ?b = "Stream \<lparr>pending = ''{}'', failure = None, closed = False\<rparr>"
  have 1: "Body (snd (Sign ?I ?s (sample_request\<lparr>Body := Some ?e\<rparr>)))
             = Some (Stream \<lparr>pending = [], failure = None, closed = True\<rparr>)"
    using body_replacement [of "sample_request\<lparr>Body := Some ?e\<rparr>" ?I ?s ?v] by simp
  have 2: "Body (snd (Verify ?I ?v (sample_signed_request\<lparr>Body := Some ?e\<rparr>)))
             = Some (Stream \<lparr>pending = [], failure = None, closed = True\<rparr>)"
    using body_replacement [of "sample_signed_request\<lparr>Body := Some ?e\<rparr>" ?I ?s ?v]
    by (simp add: sample_defs)
  have 3: "Body (snd (Sign ?I ?s (sample_request\<lparr>Body := Some ?b\<rparr>))) = Some (NopCloser ''{}'')"
    using body_replacement [of "sample_request\<lparr>Body := Some ?b\<rparr>" ?I ?s ?v] by simp
  have 4: "Body (snd (Sign ?I ?s sample_request)) = None"
    using body_replacement [of sample_request ?I ?s ?v] by (simp add: sample_request_def)
  from 1 2 3 4 show ?thesis by simp
qed

subsection \<open>The verifying middleware and the signing transport\<close>

text \<open>
  Claim C3. Whatever error \<open>Verify\<close> reports for the request, the handler calls
  \<open>serveErr\<close> on the response writer and returns without invoking the wrapped handler;
  on a response writer that has sent nothing yet this is status 400 with the header
  \<open>Content-Type: text/plain\<close> and the body \<open>invalid required signature\<close>. The response
  does not depend on the request or on the error. When \<open>Verify\<close> reports no error the
  wrapped handler is invoked, once, with the response writer and the request.
\<close>

theorem NewVerifyMiddleware_uniform_failure:
  "(snd (fst (Verify I (NewVerifier now opts) r)) \<noteq> None \<longrightarrow>
      NewVerifyMiddleware I now opts h rw r = (serveErr rw, [])
      \<and> (wroteHeader rw = None \<and> written rw = [] \<longrightarrow>
           wroteHeader (serveErr rw)
             = Some (400, (handlerHeader rw)(''Content-Type'' \<mapsto> [''text/plain'']))
           \<and> written (serveErr rw) = ''invalid required signature''))
   \<and> (snd (fst (Verify I (NewVerifier now opts) r)) = None \<longrightarrow>
      NewVerifyMiddleware I now opts h rw r
        = (h rw (snd (Verify I (NewVerifier now opts) r)),
           [snd (Verify I (NewVerifier now opts) r)]))"
  by (cases "Verify I (NewVerifier now opts) r")
     (auto simp: NewVerifyMiddleware_def serveErr_unwritten split: option.splits)

theorem NewVerifyMiddleware_uniform_failure_witness:
  "NewVerifyMiddleware (sample_internals (Inr sample_signature_headers)) () sample_verify_opts
      sample_handler new_responseWriter sample_request
     = (\<lparr>handlerHeader = [''Content-Type'' \<mapsto> [''text/plain'']],
         wroteHeader = Some (400, [''Content-Type'' \<mapsto> [''text/plain'']]),
         written = ''invalid required signature''\<rparr>, [])
   \<and> NewVerifyMiddleware (sample_internals (Inr sample_signature_headers)) () sample_verify_opts
      sample_handler new_responseWriter sample_signed_request
     = (\<lparr>handlerHeader = Map.empty, wroteHeader = Some (200, Map.empty), written = ''ok''\<rparr>,
        [sample_signed_request])"
proof -
  let ?I = "sample_internals (Inr sample_signature_headers)"
  let ?v = "NewVerifier () sample_verify_opts"
  have 1: "Verify ?I ?v sample_request
             = (([], Some (Error ''missing signature'')), sample_request)"
    by (simp add: Verify_def sample_defs)
  have 2: "Verify ?I ?v sample_signed_request = ((''test-key'', None), sample_signed_request)"
    by (simp add: Verify_def sample_defs Let_def)
  have a: "NewVerifyMiddleware ?I () sample_verify_opts sample_handler new_responseWriter
             sample_request
     = (\<lparr>handlerHeader = [''Content-Type'' \<mapsto> [''text/plain'']],
         wroteHeader = Some (400, [''Content-Type'' \<mapsto> [''text/plain'']]),
         written = ''invalid required signature''\<rparr>, [])"
    using NewVerifyMiddleware_uniform_failure
      [of ?I "()" sample_verify_opts sample_request sample_handler new_responseWriter]
    by (simp add: 1 new_responseWriter_def serveErr_unwritten)
  have b: "NewVerifyMiddleware ?I () sample_verify_opts sample_handler new_responseWriter
             sample_signed_request
     = (\<lparr>handlerHeader = Map.empty, wroteHeader = Some (200, Map.empty), written = ''ok''\<rparr>,
        [sample_signed_request])"
    using NewVerifyMiddleware_uniform_failure
      [of ?I "()" sample_verify_opts sample_signed_request sample_handler new_responseWriter]
    by (simp add: 2 new_responseWriter_def sample_handler_def Write_def WriteHeader_def)
  from a b show ?thesis by simp
qed

text \<open>
  Claim C8. The round tripper invokes the wrapped transport, once and with the signed
  request, when \<open>Sign\<close> returns no error, and returns what the transport returns. When
  \<open>Sign\<close> returns an error the transport is not invoked and the round tripper returns a
  nil response with that error. The transport is invoked exactly when \<open>Sign\<close> returns
  no error.
\<close>

theorem NewSignTransport_forwards_iff_signed:
  "(fst (Sign I (NewSigner opts) r) = Returns None \<longrightarrow>
      NewSignTransport I transport opts r
        = (Returns (transport (snd (Sign I (NewSigner opts) r))),
           snd (Sign I (NewSigner opts) r), [snd (Sign I (NewSigner opts) r)]))
   \<and> (\<forall>e. fst (Sign I (NewSigner opts) r) = Returns (Some e) \<longrightarrow>
      NewSignTransport I transport opts r
        = (Returns (None, Some e), snd (Sign I (NewSigner opts) r), []))
   \<and> (snd (snd (NewSignTransport I transport opts r)) \<noteq> []
        \<longleftrightarrow> fst (Sign I (NewSigner opts) r) = Returns None)"
  by (cases "Sign I (NewSigner opts) r")
     (auto simp: NewSignTransport_def split: option.splits outcome.splits)

theorem NewSignTransport_forwards_iff_signed_witness:
  "fst (NewSignTransport (sample_internals (Inr sample_signature_headers)) sample_transport
          sample_sign_opts sample_request) = Returns (Some 200, None)
   \<and> length (snd (snd (NewSignTransport (sample_internals (Inr sample_signature_headers))
          sample_transport sample_sign_opts sample_request))) = 1
   \<and> fst (NewSignTransport (sample_internals (Inl (Error ''signing failed''))) sample_transport
          sample_sign_opts sample_request) = Returns (None, Some (Error ''signing failed''))
   \<and> snd (snd (NewSignTransport (sample_internals (Inl (Error ''signing failed'')))
          sample_transport sample_sign_opts sample_request)) = []"
proof -
  let ?I = "sample_internals (Inr sample_signature_headers)"
  let ?F = "sample_internals (Inl (Error ''signing failed''))"
  have 1: "fst (Sign ?I (NewSigner sample_sign_opts) sample_request) = Returns None"
    by (simp add: Sign_def sample_defs Let_def)
  have 2: "fst (Sign ?F (NewSigner sample_sign_opts) sample_request)
             = Returns (Some (Error ''signing failed''))"
    by (simp add: Sign_def sample_defs Let_def)
  from NewSignTransport_forwards_iff_signed [of ?I sample_sign_opts sample_request sample_transport] 1
       NewSignTransport_forwards_iff_signed [of ?F sample_sign_opts sample_request sample_transport] 2
  show ?thesis by (simp add: sample_transport_def)
qed

end
